theory Spec2Isabelle
  imports Main
begin

section \<open>Strings of the JavaScript runtime\<close>

text \<open>
  A JavaScript string is modelled as a \<^typ>\<open>string\<close>: one \<^typ>\<open>char\<close> per code unit,
  for code units U+0000 .. U+00FF. All markers the source looks for (\<open>account\<close>,
  \<open>Token scopes:\<close>, the single quote, comma and space) are ASCII.
\<close>

definition is_space :: "char \<Rightarrow> bool" where
  \<comment> \<open>White space and line terminators that \<open>String.prototype.trim\<close> removes, within
      U+0000 .. U+00FF: TAB, LF, VT, FF, CR, SPACE, NBSP.\<close>
  "is_space c =
     (c = CHR 0x09 \<or> c = CHR 0x0A \<or> c = CHR 0x0B \<or> c = CHR 0x0C \<or> c = CHR 0x0D \<or>
      c = CHR 0x20 \<or> c = CHR 0xA0)"

definition trim :: "string \<Rightarrow> string" where
  \<comment> \<open>\<open>s.trim()\<close>: white space removed at both ends.\<close>
  "trim s = rev (dropWhile is_space (rev (dropWhile is_space s)))"

definition is_word_char :: "char \<Rightarrow> bool" where
  \<comment> \<open>The regular expression class \<open>\w\<close> (no flags): \<open>[A-Za-z0-9_]\<close>.\<close>
  "is_word_char c =
     (let n = (of_char c :: nat)
      in (48 \<le> n \<and> n \<le> 57) \<or> (65 \<le> n \<and> n \<le> 90) \<or> n = 95 \<or> (97 \<le> n \<and> n \<le> 122))"

definition starts_with :: "string \<Rightarrow> string \<Rightarrow> bool" where
  \<comment> \<open>\<open>starts_with p s\<close>: the text \<open>s\<close> begins with the literal \<open>p\<close>.\<close>
  "starts_with p s = (take (length p) s = p)"

fun str_includes :: "string \<Rightarrow> string \<Rightarrow> bool" where
  \<comment> \<open>\<open>s.includes(p)\<close>: the literal \<open>p\<close> occurs somewhere in \<open>s\<close>.\<close>
  "str_includes [] p = (p = [])"
| "str_includes (c # cs) p = (starts_with p (c # cs) \<or> str_includes cs p)"

definition quote :: char where
  "quote = CHR 0x27"

definition account_marker :: string where
  "account_marker = ''account ''"

definition scopes_marker :: string where
  "scopes_marker = ''Token scopes: '' @ [quote]"

fun match_account :: "string \<Rightarrow> string option" where
  \<comment> \<open>\<open>s.match(/account (\w+)/)\<close>: the first capture group of the leftmost match, the
      longest run of word characters after the marker; \<open>None\<close> when nothing matches.\<close>
  "match_account [] = None"
| "match_account (c # cs) =
     (let word = takeWhile is_word_char (drop (length account_marker) (c # cs))
      in if starts_with account_marker (c # cs) \<and> word \<noteq> [] then Some word
         else match_account cs)"

fun match_scopes :: "string \<Rightarrow> string option" where
  \<comment> \<open>\<open>s.match(/Token scopes: '([^']+)'/)\<close>: at the leftmost position where the marker
      is followed by a non-empty run of characters other than the quote and then by a
      quote, that run.\<close>
  "match_scopes [] = None"
| "match_scopes (c # cs) =
     (let rest = drop (length scopes_marker) (c # cs);
          run = takeWhile (\<lambda>x. x \<noteq> quote) rest;
          after = dropWhile (\<lambda>x. x \<noteq> quote) rest
      in if starts_with scopes_marker (c # cs) \<and> run \<noteq> [] \<and> after \<noteq> [] then Some run
         else match_scopes cs)"

fun split_comma_space :: "string \<Rightarrow> string \<Rightarrow> string list" where
  \<comment> \<open>\<open>s.split(', ')\<close>, with the piece read so far (reversed) as accumulator: the text
      is cut at every occurrence of comma-space, scanning from the left.\<close>
  "split_comma_space acc [] = [rev acc]"
| "split_comma_space acc [c] = [rev (c # acc)]"
| "split_comma_space acc (c # d # cs) =
     (if c = CHR '','' \<and> d = CHR '' '' then rev acc # split_comma_space [] cs
      else split_comma_space (c # acc) (d # cs))"

definition digit_char :: "nat \<Rightarrow> char" where
  "digit_char d = ''0123456789'' ! d"

fun string_of_nat :: "nat \<Rightarrow> string" where
  \<comment> \<open>The decimal numeral a template literal prints for a non-negative integer.\<close>
  "string_of_nat n =
     (if n < 10 then [digit_char n] else string_of_nat (n div 10) @ [digit_char (n mod 10)])"

declare string_of_nat.simps [simp del]

section \<open>The ambient runtime\<close>

text \<open>
  The source reads three things from its surroundings: the outcome of a synchronous
  subprocess (\<open>execSync\<close>), the process environment (\<open>process.env\<close>) and the outcome of
  one HTTP request (\<open>fetch\<close>). They are fields of a \<open>world\<close>, beside what the engine
  itself decides: how numbers and dates print, which numbers are truthy, and the message
  of the \<open>TypeError\<close> for a property read from \<open>null\<close> or \<open>undefined\<close>. A thrown
  JavaScript value is either an \<open>Error\<close> object with its message or some other value
  (\<open>error instanceof Error\<close> decides between the two).
\<close>

datatype thrown = Error string | NonError

datatype exec_result = Threw | Stdout string

text \<open>
  The parsed body of a response is any JSON value: the annotation
  \<open>GitHubSearchResponse\<close> of the source is erased at run time. Numbers are kept abstract
  (the type \<open>'n\<close> of JavaScript numbers). An object keeps its members in the order of the
  text; for a repeated key \<open>JSON.parse\<close> keeps the last one.
\<close>

datatype 'n json =
    JNull
  | JBool bool
  | JNum 'n
  | JStr string
  | JArr "'n json list"
  | JObj "(string \<times> 'n json) list"

fun json_member :: "'n json \<Rightarrow> string \<Rightarrow> 'n json option" where
  \<comment> \<open>The member of a parsed object under a key; nothing for a value that is no object.\<close>
  "json_member (JObj kvs) k = map_of (rev kvs) k"
| "json_member v k = None"

text \<open>
  The JavaScript values the \<open>try\<close> block of the fetch operation can hold: \<open>undefined\<close>, a
  value of the parsed body, the method \<open>String.prototype.search\<close> (what reading \<open>search\<close>
  from a string gives) and a length (of an array, a string or a function).
\<close>

datatype 'n jsval = Undefined | Val "'n json" | StringSearch | Len nat

datatype member_name = Data | Search | Nodes | Length

fun prop_name :: "member_name \<Rightarrow> string" where
  "prop_name Data = ''data''"
| "prop_name Search = ''search''"
| "prop_name Nodes = ''nodes''"
| "prop_name Length = ''length''"

datatype nullish = NullValue | UndefinedValue

datatype 'n json_result = JsonRejected thrown | JsonResolved "'n json"

record 'n response =
  status :: nat
  statusText :: string
  json :: "'n json_result"

definition ok :: "'n response \<Rightarrow> bool" where
  \<comment> \<open>\<open>response.ok\<close>: by the Fetch standard, the status is in the range 200 to 299.\<close>
  "ok r = (200 \<le> status r \<and> status r \<le> 299)"

datatype 'n fetch_result = Rejected thrown | Resolved "'n response"

record request =
  req_url :: string
  req_method :: string
  req_authorization :: string
  req_content_type :: string
  req_query :: string  \<comment> \<open>the body is \<open>JSON.stringify({ query })\<close>; the query itself is kept\<close>

record ('n, 'd) world =
  execSync :: "string \<Rightarrow> exec_result"
  env :: "string \<Rightarrow> string option"
  fetch :: "request \<Rightarrow> 'n fetch_result"
  number_toString :: "'n \<Rightarrow> string"  \<comment> \<open>how a template literal prints a number\<close>
  date_toString :: "'d \<Rightarrow> string"  \<comment> \<open>how a template literal prints a \<open>Date\<close>\<close>
  number_truthy :: "'n \<Rightarrow> bool"  \<comment> \<open>a number other than 0 and NaN\<close>
  type_error_message :: "nullish \<Rightarrow> string \<Rightarrow> string"
    \<comment> \<open>the message of the \<open>TypeError\<close> the engine raises when a property (second
        argument) is read from \<open>null\<close> or \<open>undefined\<close>\<close>

fun read_prop :: "('n, 'd) world \<Rightarrow> 'n jsval \<Rightarrow> member_name \<Rightarrow> thrown + 'n jsval" where
  \<comment> \<open>The property access \<open>v.p\<close>, for the four names the source reads. Reading from
      \<open>null\<close> or \<open>undefined\<close> throws; an object gives its member or \<open>undefined\<close>; a string
      has \<open>length\<close> and the method \<open>search\<close>; an array has \<open>length\<close>; a function has
      \<open>length\<close> (1 for \<open>search\<close>); a boolean or a number has none of the four.\<close>
  "read_prop w Undefined p = Inl (Error (type_error_message w UndefinedValue (prop_name p)))"
| "read_prop w (Val JNull) p = Inl (Error (type_error_message w NullValue (prop_name p)))"
| "read_prop w (Val (JObj kvs)) p =
     Inr (case map_of (rev kvs) (prop_name p) of None \<Rightarrow> Undefined | Some v \<Rightarrow> Val v)"
| "read_prop w (Val (JStr s)) p =
     Inr (case p of Length \<Rightarrow> Len (length s) | Search \<Rightarrow> StringSearch | _ \<Rightarrow> Undefined)"
| "read_prop w (Val (JArr xs)) p =
     Inr (case p of Length \<Rightarrow> Len (length xs) | _ \<Rightarrow> Undefined)"
| "read_prop w (Val (JBool b)) p = Inr Undefined"
| "read_prop w (Val (JNum n)) p = Inr Undefined"
| "read_prop w StringSearch p = Inr (case p of Length \<Rightarrow> Len 1 | _ \<Rightarrow> Undefined)"
| "read_prop w (Len n) p = Inr Undefined"

fun truthy :: "('n, 'd) world \<Rightarrow> 'n jsval \<Rightarrow> bool" where
  \<comment> \<open>What \<open>!v\<close> negates: every value but \<open>undefined\<close>, \<open>null\<close>, \<open>false\<close>, 0, NaN and the
      empty string.\<close>
  "truthy w Undefined = False"
| "truthy w (Val JNull) = False"
| "truthy w (Val (JBool b)) = b"
| "truthy w (Val (JNum n)) = number_truthy w n"
| "truthy w (Val (JStr s)) = (s \<noteq> [])"
| "truthy w (Val (JArr xs)) = True"
| "truthy w (Val (JObj kvs)) = True"
| "truthy w StringSearch = True"
| "truthy w (Len n) = (n \<noteq> 0)"

text \<open>
  What an operation did to its surroundings, in order. Console output is not recorded.
\<close>

datatype event = ExecSync string | GetEnv string | Fetch request

section \<open>github-auth-tool.ts\<close>

datatype source = Environment | GithubCli

record GitHubAuthResponse =
  token :: string
  username :: string
  scopes :: "string list"
  source :: source

record auth_context =
  requireToken :: "bool option"

definition newline :: string where
  "newline = [CHR 0x0A]"

definition no_token_message :: string where
  "no_token_message =
     ''No GitHub token found. Please either:'' @ newline @
     ''1. Login with GitHub CLI: gh auth login (recommended), or'' @ newline @
     ''2. Set GITHUB_TOKEN environment variable''"

definition user_info :: "('n, 'd) world \<Rightarrow> source \<Rightarrow> event list \<times> string \<times> string list" where
  \<comment> \<open>The second \<open>try\<close> block of \<open>execute\<close>: user name and scopes. A failing status
      command is caught and leaves both empty.\<close>
  "user_info w src =
     (if src = GithubCli then
        (case execSync w ''gh auth status'' of
           Threw \<Rightarrow> ([ExecSync ''gh auth status''], [], [])
         | Stdout statusOutput \<Rightarrow>
             ([ExecSync ''gh auth status''],
              (case match_account statusOutput of None \<Rightarrow> [] | Some u \<Rightarrow> u),
              (case match_scopes statusOutput of None \<Rightarrow> [] | Some s \<Rightarrow> split_comma_space [] s)))
      else ([], ''unknown'', [''unknown'']))"

definition with_user_info ::
  "('n, 'd) world \<Rightarrow> event list \<Rightarrow> string \<Rightarrow> source \<Rightarrow> event list \<times> (thrown + GitHubAuthResponse)" where
  "with_user_info w evs tok src =
     (case user_info w src of
        (evs', u, sc) \<Rightarrow>
          (evs @ evs', Inr \<lparr>token = tok, username = u, scopes = sc, source = src\<rparr>))"

definition githubAuthTool_execute ::
  "('n, 'd) world \<Rightarrow> auth_context \<Rightarrow> event list \<times> (thrown + GitHubAuthResponse)" where
  "githubAuthTool_execute w context =
     (let required = (case requireToken context of None \<Rightarrow> True | Some b \<Rightarrow> b)
      in case execSync w ''gh auth token'' of
           Stdout out \<Rightarrow> with_user_info w [ExecSync ''gh auth token''] (trim out) GithubCli
         | Threw \<Rightarrow>
             (let tok = (case env w ''GITHUB_TOKEN'' of None \<Rightarrow> [] | Some v \<Rightarrow> v);
                  evs = [ExecSync ''gh auth token'', GetEnv ''GITHUB_TOKEN'']
              in if tok \<noteq> [] then with_user_info w evs tok Environment
                 else if required then (evs, Inl (Error no_token_message))
                 else (evs, Inr \<lparr>token = [], username = [], scopes = [], source = GithubCli\<rparr>)))"

definition getGitHubToken :: "('n, 'd) world \<Rightarrow> event list \<times> (thrown + string)" where
  "getGitHubToken w =
     (case execSync w ''gh auth token'' of
        Stdout out \<Rightarrow> ([ExecSync ''gh auth token''], Inr (trim out))
      | Threw \<Rightarrow>
          (let tok = (case env w ''GITHUB_TOKEN'' of None \<Rightarrow> [] | Some v \<Rightarrow> v);
               evs = [ExecSync ''gh auth token'', GetEnv ''GITHUB_TOKEN'']
           in if tok \<noteq> [] then (evs, Inr tok) else (evs, Inl (Error no_token_message))))"

section \<open>fetch-pr-tool.ts\<close>

text \<open>
  The result holds what the source puts into it: the value read from \<open>nodes\<close> and the
  value read from its \<open>length\<close>.
\<close>

record 'n FetchPrToolResponse =
  pullRequests :: "'n jsval"
  totalCount :: "'n jsval"

record ('n, 'd) fetch_context =
  author :: string
  organization :: string
  mergedAfter :: 'd
  limit :: "'n option"

definition dquote :: string where
  "dquote = [CHR 0x22]"

definition query_text :: "('n, 'd) world \<Rightarrow> ('n, 'd) fetch_context \<Rightarrow> string" where
  \<comment> \<open>The template literal \<open>query\<close>; a missing \<open>limit\<close> is 100. Nothing is escaped.\<close>
  "query_text w context =
     newline @
     ''      query {'' @ newline @
     ''        search(first: '' @
       (case limit context of None \<Rightarrow> ''100'' | Some n \<Rightarrow> number_toString w n) @
       '', type: ISSUE, query: '' @ dquote @
       ''author:'' @ author context @ '' org:'' @ organization context @
       '' is:pr merged:>='' @ date_toString w (mergedAfter context) @ dquote @ '') {'' @ newline @
     ''          issueCount'' @ newline @
     ''          nodes {'' @ newline @
     ''            ... on PullRequest {'' @ newline @
     ''              title'' @ newline @
     ''              url'' @ newline @
     ''              mergedAt'' @ newline @
     ''              repository {'' @ newline @
     ''                name'' @ newline @
     ''              }'' @ newline @
     ''            }'' @ newline @
     ''          }'' @ newline @
     ''        }'' @ newline @
     ''      }'' @ newline @
     ''    ''"

definition graphql_request :: "('n, 'd) world \<Rightarrow> ('n, 'd) fetch_context \<Rightarrow> string \<Rightarrow> request" where
  "graphql_request w context githubToken =
     \<lparr>req_url = ''https://api.github.com/graphql'',
      req_method = ''POST'',
      req_authorization = ''Bearer '' @ githubToken,
      req_content_type = ''application/json'',
      req_query = query_text w context\<rparr>"

definition request_failed_message :: "'n response \<Rightarrow> string" where
  "request_failed_message r =
     ''GitHub API request failed: '' @ string_of_nat (status r) @ '' '' @ statusText r"

definition invalid_structure_message :: string where
  "invalid_structure_message = ''Invalid response structure from GitHub API''"

definition read_body :: "('n, 'd) world \<Rightarrow> 'n json \<Rightarrow> thrown + 'n FetchPrToolResponse" where
  \<comment> \<open>Lines 103 to 112: the shape check, then \<open>nodes\<close> and its \<open>length\<close>. Only the two
      tested members are guarded; every other read can throw.\<close>
  "read_body w body =
     (case read_prop w (Val body) Data of
        Inl e \<Rightarrow> Inl e
      | Inr d \<Rightarrow>
          if \<not> truthy w d then Inl (Error invalid_structure_message)
          else
            (case read_prop w d Search of
               Inl e \<Rightarrow> Inl e
             | Inr s \<Rightarrow>
                 if \<not> truthy w s then Inl (Error invalid_structure_message)
                 else
                   (case read_prop w s Nodes of
                      Inl e \<Rightarrow> Inl e
                    | Inr prs \<Rightarrow>
                        (case read_prop w prs Length of
                           Inl e \<Rightarrow> Inl e
                         | Inr n \<Rightarrow> Inr \<lparr>pullRequests = prs, totalCount = n\<rparr>))))"

definition try_fetch :: "('n, 'd) world \<Rightarrow> request \<Rightarrow> thrown + 'n FetchPrToolResponse" where
  \<comment> \<open>The body of the \<open>try\<close> block of \<open>execute\<close>: \<open>Inl\<close> is what it throws.\<close>
  "try_fetch w req =
     (case fetch w req of
        Rejected e \<Rightarrow> Inl e
      | Resolved r \<Rightarrow>
          if \<not> ok r then Inl (Error (request_failed_message r))
          else
            (case json r of
               JsonRejected e \<Rightarrow> Inl e
             | JsonResolved body \<Rightarrow> read_body w body))"

definition cause_message :: "thrown \<Rightarrow> string" where
  \<comment> \<open>\<open>error instanceof Error ? error.message : 'Unknown error'\<close>\<close>
  "cause_message e = (case e of Error m \<Rightarrow> m | NonError \<Rightarrow> ''Unknown error'')"

definition fetch_failed_prefix :: string where
  "fetch_failed_prefix = ''Failed to fetch pull requests: ''"

definition fetchPrTool_execute ::
  "('n, 'd) world \<Rightarrow> ('n, 'd) fetch_context \<Rightarrow> event list \<times> (thrown + 'n FetchPrToolResponse)" where
  \<comment> \<open>The token is resolved before the \<open>try\<close> block: its failure is not caught here.\<close>
  "fetchPrTool_execute w context =
     (case getGitHubToken w of
        (evs, Inl e) \<Rightarrow> (evs, Inl e)
      | (evs, Inr githubToken) \<Rightarrow>
          (let req = graphql_request w context githubToken
           in (evs @ [Fetch req],
               (case try_fetch w req of
                  Inl e \<Rightarrow> Inl (Error (fetch_failed_prefix @ cause_message e))
                | Inr res \<Rightarrow> Inr res))))"

section \<open>Specification-side definitions and worked runtimes\<close>

fun with_member :: "string \<Rightarrow> 'n json \<Rightarrow> 'n json \<Rightarrow> 'n json" where
  \<comment> \<open>An object with one more member at its end, which overrides an earlier one of the
      same key; any other value as it is.\<close>
  "with_member k x (JObj kvs) = JObj (kvs @ [(k, x)])"
| "with_member k x v = v"

definition set_issueCount_body :: "'n json \<Rightarrow> 'n json \<Rightarrow> 'n json" where
  \<comment> \<open>The body with \<open>data.search.issueCount\<close> replaced, where \<open>data.search\<close> is there.\<close>
  "set_issueCount_body k body =
     (case json_member body ''data'' of
        None \<Rightarrow> body
      | Some d \<Rightarrow>
          (case json_member d ''search'' of
             None \<Rightarrow> body
           | Some s \<Rightarrow>
               with_member ''data''
                 (with_member ''search'' (with_member ''issueCount'' k s) d) body))"

definition set_issueCount :: "'n json \<Rightarrow> 'n fetch_result \<Rightarrow> 'n fetch_result" where
  \<comment> \<open>The same outcome of the request, with the server-reported \<open>issueCount\<close> replaced.\<close>
  "set_issueCount k fr =
     (case fr of
        Rejected e \<Rightarrow> Rejected e
      | Resolved r \<Rightarrow>
          Resolved (r\<lparr>json :=
            (case json r of
               JsonRejected e \<Rightarrow> JsonRejected e
             | JsonResolved b \<Rightarrow> JsonResolved (set_issueCount_body k b))\<rparr>))"

definition v8_type_error_message :: "nullish \<Rightarrow> string \<Rightarrow> string" where
  \<comment> \<open>The message of V8 (Node.js) for a property read from \<open>null\<close> or \<open>undefined\<close>.\<close>
  "v8_type_error_message v p =
     ''Cannot read properties of '' @
     (case v of NullValue \<Rightarrow> ''null'' | UndefinedValue \<Rightarrow> ''undefined'') @
     '' (reading '' @ [quote] @ p @ [quote] @ '')''"

definition example_world ::
  "exec_result \<Rightarrow> exec_result \<Rightarrow> string option \<Rightarrow> nat fetch_result \<Rightarrow> (nat, string) world" where
  \<comment> \<open>A runtime given by the outcome of the two commands, the value of
      \<open>GITHUB_TOKEN\<close> and the outcome of the request.\<close>
  "example_world tokenCmd statusCmd envToken fetched =
     \<lparr>execSync = (\<lambda>cmd. if cmd = ''gh auth token'' then tokenCmd
                        else if cmd = ''gh auth status'' then statusCmd else Threw),
      env = (\<lambda>v. if v = ''GITHUB_TOKEN'' then envToken else None),
      fetch = (\<lambda>req. fetched),
      number_toString = string_of_nat,
      date_toString = (\<lambda>d. d),
      number_truthy = (\<lambda>n. n \<noteq> 0),
      type_error_message = v8_type_error_message\<rparr>"

definition example_context :: "(nat, string) fetch_context" where
  "example_context =
     \<lparr>author = ''alice'', organization = ''Anti-Pattern-Inc'',
      mergedAfter = ''2024-01-01'', limit = Some 100\<rparr>"

definition example_pr :: "string \<Rightarrow> nat json" where
  "example_pr t =
     JObj [(''title'', JStr t),
           (''url'', JStr (''https://github.com/Anti-Pattern-Inc/repo/pull/'' @ t)),
           (''mergedAt'', JStr ''2024-02-01T00:00:00Z''),
           (''repository'', JObj [(''name'', JStr ''repo'')])]"

definition example_response :: "nat \<Rightarrow> string \<Rightarrow> nat json \<Rightarrow> nat response" where
  "example_response code text body =
     \<lparr>status = code, statusText = text, json = JsonResolved body\<rparr>"

definition search_body :: "(string \<times> nat json) list \<Rightarrow> nat json" where
  \<comment> \<open>The body \<open>{"data": {"search": {...}}}\<close> with the given members of \<open>search\<close>.\<close>
  "search_body members = JObj [(''data'', JObj [(''search'', JObj members)])]"

definition two_account_status :: string where
  \<comment> \<open>A status text that lists the account bob before the account alice.\<close>
  "two_account_status =
     ''github.com'' @ newline @
     ''  Logged in to github.com account bob (keyring)'' @ newline @
     ''  - Token scopes: '' @ [quote] @ ''gist'' @ [quote] @ newline @
     ''  Logged in to github.com account alice (keyring)'' @ newline @
     ''  - Token scopes: '' @ [quote] @ ''repo, read:org'' @ [quote] @ newline"

definition alice_status_head :: string where
  "alice_status_head = ''github.com'' @ newline @ ''  Logged in to github.com ''"

definition alice_status_middle :: string where
  "alice_status_middle =
     '' (keyring)'' @ newline @ ''  - Active account: true'' @ newline @ ''  - ''"

definition alice_status :: string where
  \<comment> \<open>A status text with the single account alice.\<close>
  "alice_status =
     alice_status_head @ ''account alice'' @ alice_status_middle @
     ''Token scopes: '' @ [quote] @ ''repo, read:org'' @ [quote] @ newline"

section \<open>Auxiliary facts\<close>

lemma starts_with_append: "starts_with p (p @ s)"
  by (simp add: starts_with_def)

lemma starts_with_includes: "starts_with p s \<Longrightarrow> str_includes s p"
  by (cases s) (auto simp: starts_with_def)

lemma str_includes_append: "str_includes (a @ p @ b) p"
proof (induction a)
  case Nil
  show ?case
    by (simp add: starts_with_includes starts_with_append)
next
  case (Cons c a)
  then show ?case by simp
qed

lemma starts_with_extend: "length p \<le> length s \<Longrightarrow> starts_with p (s @ t) = starts_with p s"
  by (simp add: starts_with_def)

lemma string_of_nat_401: "string_of_nat 401 = ''401''"
  by (simp add: string_of_nat.simps digit_char_def)

lemma takeWhile_until: "q \<notin> set run \<Longrightarrow> takeWhile (\<lambda>x. x \<noteq> q) (run @ q # post) = run"
  by (induction run) auto

lemma dropWhile_until: "q \<notin> set run \<Longrightarrow> dropWhile (\<lambda>x. x \<noteq> q) (run @ q # post) = q # post"
  by (induction run) auto

text \<open>
  The leftmost match wins: when the marker does not occur before a position, the match
  found is the one at that position.
\<close>

lemma match_account_first:
  assumes "\<not> str_includes (pre @ ''account'') account_marker"
      and "u \<noteq> []" and "\<forall>c\<in>set u. is_word_char c"
      and "takeWhile is_word_char post = []"
  shows "match_account (pre @ account_marker @ u @ post) = Some u"
  using assms(1)
proof (induction pre)
  case Nil
  from assms(2-4) show ?case
    by (simp add: account_marker_def starts_with_def takeWhile_append2)
next
  case (Cons c pre)
  have len: "length account_marker \<le> length (c # pre @ ''account'')"
    by (simp add: account_marker_def)
  from Cons.prems have "\<not> starts_with account_marker (c # pre @ ''account'')"
    and rest: "\<not> str_includes (pre @ ''account'') account_marker"
    by simp_all
  with starts_with_extend [OF len, of "'' '' @ u @ post"]
  have no: "\<not> starts_with account_marker ((c # pre @ ''account'') @ '' '' @ u @ post)"
    by blast
  have eq: "(c # pre @ ''account'') @ '' '' @ u @ post = c # pre @ account_marker @ u @ post"
    by (simp add: account_marker_def)
  from no have "\<not> starts_with account_marker (c # pre @ account_marker @ u @ post)"
    unfolding eq .
  with Cons.IH [OF rest] show ?case by simp
qed

lemma match_scopes_first:
  assumes "\<not> str_includes (pre @ ''Token scopes: '') scopes_marker"
      and "run \<noteq> []" and "quote \<notin> set run"
  shows "match_scopes (pre @ scopes_marker @ run @ quote # post) = Some run"
  using assms(1)
proof (induction pre)
  case Nil
  have "takeWhile (\<lambda>x. x \<noteq> quote) (run @ quote # post) = run"
    using assms(3) by (rule takeWhile_until)
  moreover have "dropWhile (\<lambda>x. x \<noteq> quote) (run @ quote # post) = quote # post"
    using assms(3) by (rule dropWhile_until)
  ultimately show ?case
    using assms(2) by (simp add: scopes_marker_def starts_with_def)
next
  case (Cons c pre)
  have len: "length scopes_marker \<le> length (c # pre @ ''Token scopes: '')"
    by (simp add: scopes_marker_def)
  from Cons.prems have "\<not> starts_with scopes_marker (c # pre @ ''Token scopes: '')"
    and rest: "\<not> str_includes (pre @ ''Token scopes: '') scopes_marker"
    by simp_all
  with starts_with_extend [OF len, of "[quote] @ run @ quote # post"]
  have no: "\<not> starts_with scopes_marker
      ((c # pre @ ''Token scopes: '') @ [quote] @ run @ quote # post)"
    by blast
  have eq: "(c # pre @ ''Token scopes: '') @ [quote] @ run @ quote # post =
        c # pre @ scopes_marker @ run @ quote # post"
    by (simp add: scopes_marker_def)
  from no have "\<not> starts_with scopes_marker (c # pre @ scopes_marker @ run @ quote # post)"
    unfolding eq .
  with Cons.IH [OF rest] show ?case by simp
qed

subsection \<open>The two branches of token resolution\<close>

lemma getGitHubToken_cli:
  "execSync w ''gh auth token'' = Stdout out \<Longrightarrow>
   getGitHubToken w = ([ExecSync ''gh auth token''], Inr (trim out))"
  by (simp add: getGitHubToken_def)

lemma getGitHubToken_env:
  "execSync w ''gh auth token'' = Threw \<Longrightarrow>
   getGitHubToken w =
     ([ExecSync ''gh auth token'', GetEnv ''GITHUB_TOKEN''],
      (case env w ''GITHUB_TOKEN'' of
         None \<Rightarrow> Inl (Error no_token_message)
       | Some v \<Rightarrow> if v = [] then Inl (Error no_token_message) else Inr v))"
  by (simp add: getGitHubToken_def Let_def split: option.splits)

lemma githubAuthTool_execute_env:
  assumes "execSync w ''gh auth token'' = Threw"
  shows "githubAuthTool_execute w context =
     ([ExecSync ''gh auth token'', GetEnv ''GITHUB_TOKEN''],
      (case env w ''GITHUB_TOKEN'' of
         None \<Rightarrow> (if requireToken context = Some False
                   then Inr \<lparr>token = [], username = [], scopes = [], source = GithubCli\<rparr>
                   else Inl (Error no_token_message))
       | Some v \<Rightarrow>
           if v = [] then
             (if requireToken context = Some False
              then Inr \<lparr>token = [], username = [], scopes = [], source = GithubCli\<rparr>
              else Inl (Error no_token_message))
           else Inr \<lparr>token = v, username = ''unknown'', scopes = [''unknown''],
                     source = Environment\<rparr>))"
  using assms
  by (cases "requireToken context")
     (auto simp: githubAuthTool_execute_def with_user_info_def user_info_def Let_def
       split: option.splits)

lemma githubAuthTool_execute_cli:
  assumes "execSync w ''gh auth token'' = Stdout out"
  shows "githubAuthTool_execute w context =
     ([ExecSync ''gh auth token'', ExecSync ''gh auth status''],
      Inr \<lparr>token = trim out,
           username = (case execSync w ''gh auth status'' of
                         Threw \<Rightarrow> []
                       | Stdout t \<Rightarrow> (case match_account t of None \<Rightarrow> [] | Some u \<Rightarrow> u)),
           scopes = (case execSync w ''gh auth status'' of
                         Threw \<Rightarrow> []
                       | Stdout t \<Rightarrow>
                           (case match_scopes t of None \<Rightarrow> [] | Some s \<Rightarrow> split_comma_space [] s)),
           source = GithubCli\<rparr>)"
  using assms
  by (simp add: githubAuthTool_execute_def with_user_info_def user_info_def
      split: exec_result.splits)

subsection \<open>The fetch operation, by the outcome of its parts\<close>

lemma fetchPrTool_execute_snd:
  "snd (fetchPrTool_execute w context) =
     (case snd (getGitHubToken w) of
        Inl e \<Rightarrow> Inl e
      | Inr tok \<Rightarrow>
          (case try_fetch w (graphql_request w context tok) of
             Inl e \<Rightarrow> Inl (Error (fetch_failed_prefix @ cause_message e))
           | Inr res \<Rightarrow> Inr res))"
  by (cases "getGitHubToken w") (simp add: fetchPrTool_execute_def Let_def split: sum.splits)

lemma json_member_read:
  "json_member v (prop_name p) = Some x \<Longrightarrow>
   read_prop w (Val v) p = Inr (Val x) \<and> truthy w (Val v)"
  by (cases v) simp_all

lemma read_body_Inr_iff:
  "read_body w body = Inr res \<longleftrightarrow>
     (\<exists>d s. read_prop w (Val body) Data = Inr d \<and> truthy w d \<and>
        read_prop w d Search = Inr s \<and> truthy w s \<and>
        read_prop w s Nodes = Inr (pullRequests res) \<and>
        read_prop w (pullRequests res) Length = Inr (totalCount res))"
  by (cases res) (auto simp: read_body_def split: sum.splits)

lemma read_body_array:
  assumes "json_member body ''data'' = Some d"
      and "json_member d ''search'' = Some s"
      and "json_member s ''nodes'' = Some (JArr xs)"
  shows "read_body w body = Inr \<lparr>pullRequests = Val (JArr xs), totalCount = Len (length xs)\<rparr>"
  using json_member_read [of body Data d w] json_member_read [of d Search s w]
    json_member_read [of s Nodes "JArr xs" w] assms
  by (simp add: read_body_def)

lemma read_body_falsy:
  assumes "read_prop w (Val body) Data = Inr d"
      and "\<not> truthy w d \<or> (read_prop w d Search = Inr s \<and> \<not> truthy w s)"
  shows "read_body w body = Inl (Error invalid_structure_message)"
  using assms by (auto simp: read_body_def)

lemma read_body_set_issueCount:
  "read_body w (set_issueCount_body k body) = read_body w body"
proof (cases "json_member body ''data''")
  case None
  then show ?thesis by (simp add: set_issueCount_body_def)
next
  case outer: (Some d)
  show ?thesis
  proof (cases "json_member d ''search''")
    case None
    with outer show ?thesis by (simp add: set_issueCount_body_def)
  next
    case (Some s)
    from outer obtain kvs where body: "body = JObj kvs" and d: "map_of (rev kvs) ''data'' = Some d"
      by (cases body) simp_all
    from Some obtain kvs' where dd: "d = JObj kvs'" and s: "map_of (rev kvs') ''search'' = Some s"
      by (cases d) simp_all
    have nodes: "read_prop w (Val (with_member ''issueCount'' k s)) Nodes = read_prop w (Val s) Nodes"
      by (cases s) simp_all
    have tr: "truthy w (Val (with_member ''issueCount'' k s)) = truthy w (Val s)"
      by (cases s) simp_all
    show ?thesis
      using outer Some
      by (simp add: set_issueCount_body_def read_body_def body d dd s nodes tr)
  qed
qed

lemma try_fetch_Inr_iff:
  "try_fetch w req = Inr res \<longleftrightarrow>
     (\<exists>r body. fetch w req = Resolved r \<and> ok r \<and> json r = JsonResolved body \<and>
        read_body w body = Inr res)"
  by (auto simp: try_fetch_def split: fetch_result.splits json_result.splits)

lemma try_fetch_not_ok:
  "fetch w req = Resolved r \<Longrightarrow> \<not> ok r \<Longrightarrow> try_fetch w req = Inl (Error (request_failed_message r))"
  by (simp add: try_fetch_def)

lemma graphql_request_fetch_irrelevant:
  "graphql_request (w\<lparr>fetch := f\<rparr>) context tok = graphql_request w context tok"
  by (simp add: graphql_request_def query_text_def split: option.splits)

lemma getGitHubToken_fetch_irrelevant:
  "getGitHubToken (w\<lparr>fetch := f\<rparr>) = getGitHubToken w"
  by (simp add: getGitHubToken_def split: exec_result.splits)

lemma read_prop_fetch_irrelevant: "read_prop (w\<lparr>fetch := f\<rparr>) v p = read_prop w v p"
  by (induction w v p rule: read_prop.induct) simp_all

lemma truthy_fetch_irrelevant: "truthy (w\<lparr>fetch := f\<rparr>) v = truthy w v"
  by (induction w v rule: truthy.induct) simp_all

lemma try_fetch_set_issueCount:
  "try_fetch (w\<lparr>fetch := set_issueCount k \<circ> fetch w\<rparr>) req = try_fetch w req"
proof -
  have "read_body (w\<lparr>fetch := set_issueCount k \<circ> fetch w\<rparr>) b = read_body w b" for b
    by (simp add: read_body_def read_prop_fetch_irrelevant truthy_fetch_irrelevant
        split: sum.splits)
  then show ?thesis
    by (simp add: try_fetch_def set_issueCount_def ok_def request_failed_message_def
        read_body_set_issueCount split: fetch_result.splits json_result.splits)
qed

section \<open>The pull request fetcher\<close>

text \<open>
  C1, as stated, fails: a resolved token, a status in 200..299 and a body with
  \<open>data.search\<close> do not make the invocation succeed. The source reads \<open>nodes\<close> and its
  \<open>length\<close> unguarded, so when \<open>data.search\<close> has no \<open>nodes\<close> the invocation returns
  nothing: reading \<open>length\<close> from \<open>undefined\<close> throws, and the error is wrapped.
\<close>

theorem missing_nodes_throws_counterexample:
  "snd (getGitHubToken
      (example_world (Stdout ''gho_abc'') Threw None
        (Resolved (example_response 200 ''OK'' (search_body [(''issueCount'', JNum 57)])))))
     = Inr ''gho_abc'' \<and>
   ok (example_response 200 ''OK'' (search_body [(''issueCount'', JNum 57)])) \<and>
   json_member (search_body [(''issueCount'', JNum 57)]) ''data''
     = Some (JObj [(''search'', JObj [(''issueCount'', JNum 57)])]) \<and>
   json_member (JObj [(''search'', JObj [(''issueCount'', JNum 57)])]) ''search''
     = Some (JObj [(''issueCount'', JNum 57)]) \<and>
   snd (fetchPrTool_execute
      (example_world (Stdout ''gho_abc'') Threw None
        (Resolved (example_response 200 ''OK'' (search_body [(''issueCount'', JNum 57)]))))
      example_context)
     = Inl (Error (''Failed to fetch pull requests: '' @
         ''Cannot read properties of undefined (reading '' @ [quote] @ ''length'' @ [quote] @ '')''))"
  by (simp add: fetchPrTool_execute_snd getGitHubToken_cli example_world_def
      example_response_def search_body_def ok_def try_fetch_def read_body_def trim_def
      is_space_def cause_message_def fetch_failed_prefix_def v8_type_error_message_def)

text \<open>
  C1, amended. When the token resolves, the response has a status in 200..299 and its body
  has \<open>data.search\<close> with an array as \<open>nodes\<close>, the invocation returns: \<open>pullRequests\<close> is
  that array, unchanged and in the same order, and \<open>totalCount\<close> is its length. The
  server-reported \<open>issueCount\<close> is not used: replacing it changes neither the outcome nor
  the trace. In general the invocation returns exactly when the token resolves, the status
  is in 200..299, \<open>data\<close> and \<open>data.search\<close> are truthy and a \<open>length\<close> can be read from
  \<open>nodes\<close>; then \<open>pullRequests\<close> is the value of \<open>nodes\<close> and \<open>totalCount\<close> the value of its
  \<open>length\<close>.
\<close>

theorem fetch_success_returns_nodes:
  "(snd (getGitHubToken w) = Inr tok \<and>
    fetch w (graphql_request w context tok) = Resolved r \<and>
    200 \<le> status r \<and> status r \<le> 299 \<and> json r = JsonResolved body \<and>
    json_member body ''data'' = Some d \<and> json_member d ''search'' = Some s \<and>
    json_member s ''nodes'' = Some (JArr xs) \<longrightarrow>
      snd (fetchPrTool_execute w context) =
        Inr \<lparr>pullRequests = Val (JArr xs), totalCount = Len (length xs)\<rparr>) \<and>
   fetchPrTool_execute (w\<lparr>fetch := set_issueCount k \<circ> fetch w\<rparr>) context =
     fetchPrTool_execute w context \<and>
   (snd (fetchPrTool_execute w context) = Inr res \<longleftrightarrow>
      (\<exists>tok' r' body' d' s'.
         snd (getGitHubToken w) = Inr tok' \<and>
         fetch w (graphql_request w context tok') = Resolved r' \<and> ok r' \<and>
         json r' = JsonResolved body' \<and>
         read_prop w (Val body') Data = Inr d' \<and> truthy w d' \<and>
         read_prop w d' Search = Inr s' \<and> truthy w s' \<and>
         read_prop w s' Nodes = Inr (pullRequests res) \<and>
         read_prop w (pullRequests res) Length = Inr (totalCount res)))"
proof (intro conjI impI)
  assume a: "snd (getGitHubToken w) = Inr tok \<and>
    fetch w (graphql_request w context tok) = Resolved r \<and>
    200 \<le> status r \<and> status r \<le> 299 \<and> json r = JsonResolved body \<and>
    json_member body ''data'' = Some d \<and> json_member d ''search'' = Some s \<and>
    json_member s ''nodes'' = Some (JArr xs)"
  then have "read_body w body =
      Inr \<lparr>pullRequests = Val (JArr xs), totalCount = Len (length xs)\<rparr>"
    using read_body_array [of body d s xs w] by simp
  with a have "try_fetch w (graphql_request w context tok) =
      Inr \<lparr>pullRequests = Val (JArr xs), totalCount = Len (length xs)\<rparr>"
    by (simp add: try_fetch_def ok_def)
  with a show "snd (fetchPrTool_execute w context) =
      Inr \<lparr>pullRequests = Val (JArr xs), totalCount = Len (length xs)\<rparr>"
    by (simp add: fetchPrTool_execute_snd)
next
  show "fetchPrTool_execute (w\<lparr>fetch := set_issueCount k \<circ> fetch w\<rparr>) context =
     fetchPrTool_execute w context"
    by (simp add: fetchPrTool_execute_def getGitHubToken_fetch_irrelevant
        graphql_request_fetch_irrelevant try_fetch_set_issueCount Let_def
        split: prod.splits sum.splits)
next
  show "snd (fetchPrTool_execute w context) = Inr res \<longleftrightarrow>
      (\<exists>tok' r' body' d' s'.
         snd (getGitHubToken w) = Inr tok' \<and>
         fetch w (graphql_request w context tok') = Resolved r' \<and> ok r' \<and>
         json r' = JsonResolved body' \<and>
         read_prop w (Val body') Data = Inr d' \<and> truthy w d' \<and>
         read_prop w d' Search = Inr s' \<and> truthy w s' \<and>
         read_prop w s' Nodes = Inr (pullRequests res) \<and>
         read_prop w (pullRequests res) Length = Inr (totalCount res))"
  proof (cases "snd (getGitHubToken w)")
    case (Inl e)
    then show ?thesis by (simp add: fetchPrTool_execute_snd)
  next
    case (Inr t)
    then have "snd (fetchPrTool_execute w context) = Inr res \<longleftrightarrow>
        try_fetch w (graphql_request w context t) = Inr res"
      by (simp add: fetchPrTool_execute_snd split: sum.splits)
    with Inr show ?thesis by (simp add: try_fetch_Inr_iff read_body_Inr_iff)
  qed
qed

text \<open>C1 amended, at a response with three nodes and \<open>issueCount = 57\<close>.\<close>

theorem fetch_success_returns_nodes_witness:
  "snd (fetchPrTool_execute
      (example_world (Stdout ''gho_abc'') Threw None
        (Resolved (example_response 200 ''OK''
          (search_body [(''issueCount'', JNum 57),
             (''nodes'', JArr [example_pr ''1'', example_pr ''2'', example_pr ''3''])]))))
      example_context)
   = Inr \<lparr>pullRequests = Val (JArr [example_pr ''1'', example_pr ''2'', example_pr ''3'']),
          totalCount = Len 3\<rparr>"
proof -
  let ?xs = "[example_pr ''1'', example_pr ''2'', example_pr ''3'']"
  let ?s = "JObj [(''issueCount'', JNum 57), (''nodes'', JArr ?xs)]"
  let ?d = "JObj [(''search'', ?s)]"
  let ?body = "search_body [(''issueCount'', JNum 57), (''nodes'', JArr ?xs)]"
  let ?r = "example_response 200 ''OK'' ?body"
  let ?w = "example_world (Stdout ''gho_abc'') Threw None (Resolved ?r)"
  have "snd (getGitHubToken ?w) = Inr ''gho_abc'' \<and>
        fetch ?w (graphql_request ?w example_context ''gho_abc'') = Resolved ?r \<and>
        200 \<le> status ?r \<and> status ?r \<le> 299 \<and> json ?r = JsonResolved ?body \<and>
        json_member ?body ''data'' = Some ?d \<and> json_member ?d ''search'' = Some ?s \<and>
        json_member ?s ''nodes'' = Some (JArr ?xs)"
    by (simp add: getGitHubToken_def example_world_def example_response_def search_body_def
        trim_def is_space_def)
  then show ?thesis
    using fetch_success_returns_nodes
      [of ?w "''gho_abc''" example_context ?r ?body ?d ?s ?xs "JNull"
          "\<lparr>pullRequests = Val (JArr ?xs), totalCount = Len 3\<rparr>"]
    by simp
qed

text \<open>
  C2, as stated, fails: the token is resolved before the \<open>try\<close> block, so when neither the
  command line tool nor the environment has a token, the resolver's own error leaves the
  operation as it is, without the prefix of the wrapper.
\<close>
theorem token_failure_not_wrapped_counterexample:
  "snd (fetchPrTool_execute (example_world Threw Threw None (Rejected NonError)) example_context)
     = Inl (Error no_token_message) \<and>
   \<not> starts_with fetch_failed_prefix no_token_message"
  by (simp add: fetchPrTool_execute_snd getGitHubToken_env example_world_def
      starts_with_def fetch_failed_prefix_def no_token_message_def)

text \<open>
  C2, amended. The operation fails in exactly two ways. Either token resolution fails, and
  its error (the message that no token was found) is passed on unchanged; or the token
  resolves and something is thrown inside the \<open>try\<close> block (the request, the status check,
  the parsing of the body or the shape check), and the failure is one \<open>Error\<close> whose
  message is \<open>Failed to fetch pull requests: \<close> followed by the message of the cause when
  the cause is an \<open>Error\<close>, and by \<open>Unknown error\<close> otherwise.
\<close>
theorem fetch_failure_wrapping:
  "(snd (fetchPrTool_execute w context) = Inl e \<longleftrightarrow>
      snd (getGitHubToken w) = Inl e \<or>
      (\<exists>tok cause.
         snd (getGitHubToken w) = Inr tok \<and>
         try_fetch w (graphql_request w context tok) = Inl cause \<and>
         e = Error (fetch_failed_prefix @
               (case cause of Error m \<Rightarrow> m | NonError \<Rightarrow> ''Unknown error'')))) \<and>
   (snd (getGitHubToken w) = Inl e \<longrightarrow> e = Error no_token_message)"
proof
  show "snd (fetchPrTool_execute w context) = Inl e \<longleftrightarrow>
      snd (getGitHubToken w) = Inl e \<or>
      (\<exists>tok cause.
         snd (getGitHubToken w) = Inr tok \<and>
         try_fetch w (graphql_request w context tok) = Inl cause \<and>
         e = Error (fetch_failed_prefix @
               (case cause of Error m \<Rightarrow> m | NonError \<Rightarrow> ''Unknown error'')))"
  proof (cases "snd (getGitHubToken w)")
    case (Inl e')
    then show ?thesis by (simp add: fetchPrTool_execute_snd)
  next
    case (Inr tok)
    then show ?thesis
      by (cases "try_fetch w (graphql_request w context tok)")
         (auto simp: fetchPrTool_execute_snd cause_message_def)
  qed
next
  show "snd (getGitHubToken w) = Inl e \<longrightarrow> e = Error no_token_message"
    by (auto simp: getGitHubToken_def Let_def split: exec_result.splits if_splits)
qed

text \<open>C2 amended, at a request that is rejected with the message \<open>fetch failed\<close>.\<close>
theorem fetch_failure_wrapping_witness:
  "snd (fetchPrTool_execute
      (example_world (Stdout ''gho_abc'') Threw None (Rejected (Error ''fetch failed'')))
      example_context)
   = Inl (Error ''Failed to fetch pull requests: fetch failed'')"
proof -
  let ?w = "example_world (Stdout ''gho_abc'') Threw None (Rejected (Error ''fetch failed''))"
  have "snd (getGitHubToken ?w) = Inr ''gho_abc'' \<and>
        try_fetch ?w (graphql_request ?w example_context ''gho_abc'') = Inl (Error ''fetch failed'')"
    by (simp add: getGitHubToken_def try_fetch_def example_world_def trim_def is_space_def)
  then show ?thesis
    using fetch_failure_wrapping [of ?w example_context
        "Error ''Failed to fetch pull requests: fetch failed''"]
    by (auto simp: fetch_failed_prefix_def)
qed

text \<open>
  C5. When the token resolves and the response has a status outside 200..299, the operation
  fails with an error whose message carries the status code in decimal and the status
  text; for status 401 the message includes \<open>401\<close>.
\<close>
theorem non_2xx_status_fails:
  assumes "snd (getGitHubToken w) = Inr tok"
      and "fetch w (graphql_request w context tok) = Resolved r"
      and "status r < 200 \<or> 299 < status r"
  shows "snd (fetchPrTool_execute w context) =
           Inl (Error (''Failed to fetch pull requests: GitHub API request failed: '' @
                       string_of_nat (status r) @ '' '' @ statusText r)) \<and>
         (status r = 401 \<longrightarrow>
            (\<exists>m. snd (fetchPrTool_execute w context) = Inl (Error m) \<and> str_includes m ''401''))"
proof -
  from assms(3) have "\<not> ok r" by (auto simp: ok_def)
  with assms(1,2) have res: "snd (fetchPrTool_execute w context) =
      Inl (Error (''Failed to fetch pull requests: GitHub API request failed: '' @
                  string_of_nat (status r) @ '' '' @ statusText r))"
    by (simp add: fetchPrTool_execute_snd try_fetch_not_ok cause_message_def
        fetch_failed_prefix_def request_failed_message_def)
  have "str_includes (''Failed to fetch pull requests: GitHub API request failed: '' @
                  ''401'' @ '' '' @ statusText r) ''401''"
    by (rule str_includes_append)
  with res show ?thesis by (auto simp: string_of_nat_401)
qed

text \<open>C5, at the response \<open>401 Unauthorized\<close>.\<close>
theorem non_2xx_status_fails_witness:
  "snd (fetchPrTool_execute
      (example_world (Stdout ''gho_abc'') Threw None
         (Resolved (example_response 401 ''Unauthorized'' JNull)))
      example_context)
   = Inl (Error ''Failed to fetch pull requests: GitHub API request failed: 401 Unauthorized'') \<and>
   str_includes ''Failed to fetch pull requests: GitHub API request failed: 401 Unauthorized'' ''401''"
proof -
  let ?r = "example_response 401 ''Unauthorized'' JNull"
  let ?w = "example_world (Stdout ''gho_abc'') Threw None (Resolved ?r)"
  have a: "snd (getGitHubToken ?w) = Inr ''gho_abc''"
    by (simp add: getGitHubToken_def example_world_def trim_def is_space_def)
  have b: "fetch ?w (graphql_request ?w example_context ''gho_abc'') = Resolved ?r"
    by (simp add: example_world_def)
  have c: "status ?r < 200 \<or> 299 < status ?r"
    by (simp add: example_response_def)
  have d: "status ?r = 401" "statusText ?r = ''Unauthorized''"
    by (simp_all add: example_response_def)
  show ?thesis
    using non_2xx_status_fails [OF a b c] d
    by (auto simp: string_of_nat_401)
qed

text \<open>
  C6: the shape check guards only \<open>data.data\<close> and \<open>data.data.search\<close>. A body that is
  \<open>null\<close> has no \<open>data.search\<close>, and reading \<open>data\<close> from it throws before the check; a
  body whose \<open>data\<close> is a string has no \<open>data.search\<close> either, but a string has the method
  \<open>search\<close>, so the check passes and reading \<open>length\<close> from the missing \<open>nodes\<close> throws.
  In both cases the wrapped error is the engine's, not the error of an invalid response
  structure.
\<close>

theorem unguarded_shapes_raise_type_errors:
  "snd (fetchPrTool_execute
      (example_world (Stdout ''gho_abc'') Threw None
         (Resolved (example_response 200 ''OK'' JNull)))
      example_context)
   = Inl (Error (''Failed to fetch pull requests: '' @
       ''Cannot read properties of null (reading '' @ [quote] @ ''data'' @ [quote] @ '')'')) \<and>
   snd (fetchPrTool_execute
      (example_world (Stdout ''gho_abc'') Threw None
         (Resolved (example_response 200 ''OK'' (JObj [(''data'', JStr ''x'')]))))
      example_context)
   = Inl (Error (''Failed to fetch pull requests: '' @
       ''Cannot read properties of undefined (reading '' @ [quote] @ ''length'' @ [quote] @ '')'')) \<and>
   snd (fetchPrTool_execute
      (example_world (Stdout ''gho_abc'') Threw None
         (Resolved (example_response 200 ''OK'' JNull)))
      example_context)
   \<noteq> Inl (Error (''Failed to fetch pull requests: '' @ invalid_structure_message)) \<and>
   snd (fetchPrTool_execute
      (example_world (Stdout ''gho_abc'') Threw None
         (Resolved (example_response 200 ''OK'' (JObj [(''data'', JStr ''x'')]))))
      example_context)
   \<noteq> Inl (Error (''Failed to fetch pull requests: '' @ invalid_structure_message))"
  by (simp add: fetchPrTool_execute_snd getGitHubToken_cli example_world_def
      example_response_def ok_def try_fetch_def read_body_def trim_def is_space_def
      cause_message_def fetch_failed_prefix_def v8_type_error_message_def
      invalid_structure_message_def quote_def)

text \<open>
  Where the shape check does apply it gives the error C6 names: when \<open>data\<close> can be read
  and is falsy (missing, \<open>null\<close>, \<open>false\<close>, 0, the empty string), or \<open>data\<close> is truthy and
  its \<open>search\<close> is falsy.
\<close>

lemma falsy_data_or_search_is_invalid_structure:
  assumes "snd (getGitHubToken w) = Inr tok"
      and "fetch w (graphql_request w context tok) = Resolved r"
      and "200 \<le> status r \<and> status r \<le> 299"
      and "json r = JsonResolved body"
      and "read_prop w (Val body) Data = Inr d"
      and "\<not> truthy w d \<or> (read_prop w d Search = Inr s \<and> \<not> truthy w s)"
  shows "snd (fetchPrTool_execute w context) =
           Inl (Error (''Failed to fetch pull requests: '' @
                       ''Invalid response structure from GitHub API''))"
proof -
  from assms(3) have "ok r" by (simp add: ok_def)
  with assms(2,4) read_body_falsy [OF assms(5,6)]
  have "try_fetch w (graphql_request w context tok) = Inl (Error invalid_structure_message)"
    by (simp add: try_fetch_def)
  with assms(1) show ?thesis
    by (simp add: fetchPrTool_execute_snd cause_message_def fetch_failed_prefix_def
        invalid_structure_message_def)
qed

section \<open>The credential resolver\<close>

text \<open>
  C3: a token command that exits successfully with blank output yields no token, yet
  neither the tool nor the helper falls back to \<open>GITHUB_TOKEN\<close> or fails. With
  \<open>requireToken\<close> true and \<open>GITHUB_TOKEN = envtok\<close>, the tool returns the empty token with
  source \<open>github-cli\<close> and the helper returns the empty string; the environment is not
  read. The environment branch of the same code tests its token for emptiness.
\<close>

theorem blank_cli_output_no_fallback:
  "githubAuthTool_execute
     (example_world (Stdout (''  '' @ newline)) Threw (Some ''envtok'') (Rejected NonError))
     \<lparr>requireToken = Some True\<rparr>
   = ([ExecSync ''gh auth token'', ExecSync ''gh auth status''],
      Inr \<lparr>token = [], username = [], scopes = [], source = GithubCli\<rparr>) \<and>
   getGitHubToken
     (example_world (Stdout (''  '' @ newline)) Threw (Some ''envtok'') (Rejected NonError))
   = ([ExecSync ''gh auth token''], Inr [])"
  by (simp add: githubAuthTool_execute_cli getGitHubToken_cli example_world_def trim_def
      is_space_def newline_def)

text \<open>
  Where the token command fails by raising (command not found, non-zero exit), the
  fallback of C3 is there: \<open>GITHUB_TOKEN\<close> is read, and a value that is present and not
  empty becomes the token, with source \<open>environment\<close>.
\<close>

lemma raising_cli_falls_back_to_environment:
  assumes "execSync w ''gh auth token'' = Threw"
  shows "GetEnv ''GITHUB_TOKEN'' \<in> set (fst (githubAuthTool_execute w context)) \<and>
         GetEnv ''GITHUB_TOKEN'' \<in> set (fst (getGitHubToken w)) \<and>
         (env w ''GITHUB_TOKEN'' = Some v \<and> v \<noteq> [] \<longrightarrow>
            (\<exists>res. snd (githubAuthTool_execute w context) = Inr res \<and>
                   source res = Environment \<and> token res = v) \<and>
            snd (getGitHubToken w) = Inr v)"
  using assms by (simp add: githubAuthTool_execute_env getGitHubToken_env)

text \<open>
  C4. When the token command fails and \<open>GITHUB_TOKEN\<close> is unset or empty: with
  \<open>requireToken\<close> true (or left out, its default) the resolver fails with the error whose
  message names both remedies, the login of the command line tool and setting the
  environment variable; with \<open>requireToken\<close> false it returns the credential with empty
  token, user name and scopes and source \<open>github-cli\<close>.
\<close>
theorem no_token_anywhere:
  assumes "execSync w ''gh auth token'' = Threw"
      and "env w ''GITHUB_TOKEN'' = None \<or> env w ''GITHUB_TOKEN'' = Some []"
  shows "snd (githubAuthTool_execute w context) =
           (if requireToken context = Some False
            then Inr \<lparr>token = [], username = [], scopes = [], source = GithubCli\<rparr>
            else Inl (Error no_token_message)) \<and>
         str_includes no_token_message ''gh auth login'' \<and>
         str_includes no_token_message ''Set GITHUB_TOKEN environment variable''"
proof -
  have "str_includes no_token_message ''gh auth login''"
    unfolding no_token_message_def
    using str_includes_append
      [of "''No GitHub token found. Please either:'' @ newline @ ''1. Login with GitHub CLI: ''"
          "''gh auth login''"
          "'' (recommended), or'' @ newline @ ''2. Set GITHUB_TOKEN environment variable''"]
    by simp
  moreover have "str_includes no_token_message ''Set GITHUB_TOKEN environment variable''"
    unfolding no_token_message_def
    using str_includes_append
      [of "''No GitHub token found. Please either:'' @ newline @
           ''1. Login with GitHub CLI: gh auth login (recommended), or'' @ newline @ ''2. ''"
          "''Set GITHUB_TOKEN environment variable''" "[]"]
    by simp
  moreover have "snd (githubAuthTool_execute w context) =
           (if requireToken context = Some False
            then Inr \<lparr>token = [], username = [], scopes = [], source = GithubCli\<rparr>
            else Inl (Error no_token_message))"
    using assms by (auto simp: githubAuthTool_execute_env)
  ultimately show ?thesis by simp
qed

text \<open>C4, with \<open>requireToken\<close> true, left out and false.\<close>
theorem no_token_anywhere_witness:
  "snd (githubAuthTool_execute (example_world Threw Threw None (Rejected NonError))
         \<lparr>requireToken = Some True\<rparr>) = Inl (Error no_token_message) \<and>
   snd (githubAuthTool_execute (example_world Threw Threw None (Rejected NonError))
         \<lparr>requireToken = None\<rparr>) = Inl (Error no_token_message) \<and>
   snd (githubAuthTool_execute (example_world Threw Threw (Some []) (Rejected NonError))
         \<lparr>requireToken = Some False\<rparr>)
     = Inr \<lparr>token = [], username = [], scopes = [], source = GithubCli\<rparr>"
proof -
  let ?w = "example_world Threw Threw None (Rejected NonError)"
  let ?w' = "example_world Threw Threw (Some []) (Rejected NonError)"
  have a: "execSync ?w ''gh auth token'' = Threw" "execSync ?w' ''gh auth token'' = Threw"
    by (simp_all add: example_world_def)
  have b: "env ?w ''GITHUB_TOKEN'' = None \<or> env ?w ''GITHUB_TOKEN'' = Some []"
    by (simp add: example_world_def)
  have b': "env ?w' ''GITHUB_TOKEN'' = None \<or> env ?w' ''GITHUB_TOKEN'' = Some []"
    by (simp add: example_world_def)
  show ?thesis
    using no_token_anywhere [OF a(1) b, of "\<lparr>requireToken = Some True\<rparr>"]
      no_token_anywhere [OF a(1) b, of "\<lparr>requireToken = None\<rparr>"]
      no_token_anywhere [OF a(2) b', of "\<lparr>requireToken = Some False\<rparr>"]
    by simp
qed

text \<open>
  C7. When the token command fails and \<open>GITHUB_TOKEN\<close> is \<open>envtok\<close>, the credential has
  token \<open>envtok\<close>, source \<open>environment\<close>, user name \<open>unknown\<close> and scopes \<open>[unknown]\<close>, and
  the status command is never run: the trace is the token command and the read of the
  environment.
\<close>
theorem environment_token_sentinels:
  assumes "execSync w ''gh auth token'' = Threw"
      and "env w ''GITHUB_TOKEN'' = Some ''envtok''"
  shows "githubAuthTool_execute w context =
           ([ExecSync ''gh auth token'', GetEnv ''GITHUB_TOKEN''],
            Inr \<lparr>token = ''envtok'', username = ''unknown'', scopes = [''unknown''],
                 source = Environment\<rparr>) \<and>
         ExecSync ''gh auth status'' \<notin> set (fst (githubAuthTool_execute w context))"
  using assms by (simp add: githubAuthTool_execute_env)

text \<open>C7, in a runtime whose status command would have answered.\<close>
theorem environment_token_sentinels_witness:
  "githubAuthTool_execute
     (example_world Threw (Stdout two_account_status) (Some ''envtok'') (Rejected NonError))
     \<lparr>requireToken = Some True\<rparr>
   = ([ExecSync ''gh auth token'', GetEnv ''GITHUB_TOKEN''],
      Inr \<lparr>token = ''envtok'', username = ''unknown'', scopes = [''unknown''],
           source = Environment\<rparr>)"
proof -
  let ?w = "example_world Threw (Stdout two_account_status) (Some ''envtok'') (Rejected NonError)"
  have "execSync ?w ''gh auth token'' = Threw" "env ?w ''GITHUB_TOKEN'' = Some ''envtok''"
    by (simp_all add: example_world_def)
  from environment_token_sentinels [OF this] show ?thesis by simp
qed

text \<open>
  C8, as stated, fails: \<open>match\<close> returns the leftmost match. A status text that lists the
  account bob (scope \<open>gist\<close>) before the account alice contains both \<open>account alice\<close> and
  the quoted scope list \<open>repo, read:org\<close>, and the resolver extracts bob and \<open>[gist]\<close>.
\<close>

theorem first_match_wins_counterexample:
  "str_includes two_account_status ''account alice'' \<and>
   str_includes two_account_status
     (''Token scopes: '' @ [quote] @ ''repo, read:org'' @ [quote]) \<and>
   snd (githubAuthTool_execute
     (example_world (Stdout ''gho_abc'') (Stdout two_account_status) None (Rejected NonError))
     \<lparr>requireToken = Some True\<rparr>)
   = Inr \<lparr>token = ''gho_abc'', username = ''bob'', scopes = [''gist''], source = GithubCli\<rparr>"
proof -
  have a: "str_includes two_account_status ''account alice''"
    unfolding two_account_status_def
    using str_includes_append
      [of "''github.com'' @ newline @
           ''  Logged in to github.com account bob (keyring)'' @ newline @
           ''  - Token scopes: '' @ [quote] @ ''gist'' @ [quote] @ newline @
           ''  Logged in to github.com ''"
          "''account alice''"
          "'' (keyring)'' @ newline @
           ''  - Token scopes: '' @ [quote] @ ''repo, read:org'' @ [quote] @ newline"]
    by simp
  have b: "str_includes two_account_status
     (''Token scopes: '' @ [quote] @ ''repo, read:org'' @ [quote])"
    unfolding two_account_status_def
    using str_includes_append
      [of "''github.com'' @ newline @
           ''  Logged in to github.com account bob (keyring)'' @ newline @
           ''  - Token scopes: '' @ [quote] @ ''gist'' @ [quote] @ newline @
           ''  Logged in to github.com account alice (keyring)'' @ newline @ ''  - ''"
          "''Token scopes: '' @ [quote] @ ''repo, read:org'' @ [quote]"
          "newline"]
    by simp
  have c: "match_account two_account_status = Some ''bob''"
    unfolding two_account_status_def
    using match_account_first
      [of "''github.com'' @ newline @ ''  Logged in to github.com ''" "''bob''"
          "'' (keyring)'' @ newline @
           ''  - Token scopes: '' @ [quote] @ ''gist'' @ [quote] @ newline @
           ''  Logged in to github.com account alice (keyring)'' @ newline @
           ''  - Token scopes: '' @ [quote] @ ''repo, read:org'' @ [quote] @ newline"]
    by (simp add: account_marker_def starts_with_def is_word_char_def newline_def)
  have d: "match_scopes two_account_status = Some ''gist''"
    unfolding two_account_status_def
    using match_scopes_first
      [of "''github.com'' @ newline @
           ''  Logged in to github.com account bob (keyring)'' @ newline @ ''  - ''"
          "''gist''"
          "newline @
           ''  Logged in to github.com account alice (keyring)'' @ newline @
           ''  - Token scopes: '' @ [quote] @ ''repo, read:org'' @ [quote] @ newline"]
    by (simp add: scopes_marker_def starts_with_def quote_def newline_def)
  have e: "split_comma_space [] ''gist'' = [''gist'']"
    by simp
  show ?thesis
    using a b
    by (simp add: githubAuthTool_execute_cli example_world_def c d e trim_def is_space_def)
qed

text \<open>
  C8, amended. When the token comes from the command line tool and the status command
  answers with a text in which the first occurrence of the marker \<open>account \<close> is
  \<open>account alice\<close>, followed by the end of the text or by a character that is not a word
  character, and the first occurrence of the marker \<open>Token scopes: \<close> with its opening
  quote is followed by \<open>repo, read:org\<close> and the closing quote, the resolver extracts the
  user name \<open>alice\<close> and the scopes \<open>[repo, read:org]\<close>: the user name is the run of word
  characters after the marker, the scopes are the quoted text cut at every comma-space.
\<close>

theorem status_text_first_match_extracted:
  assumes "execSync w ''gh auth token'' = Stdout out"
      and "execSync w ''gh auth status'' = Stdout statusOutput"
      and "statusOutput = pre @ ''account alice'' @ post"
      and "\<not> str_includes (pre @ ''account'') ''account ''"
      and "post = [] \<or> \<not> is_word_char (hd post)"
      and "statusOutput =
             pre' @ ''Token scopes: '' @ [quote] @ ''repo, read:org'' @ [quote] @ post'"
      and "\<not> str_includes (pre' @ ''Token scopes: '') (''Token scopes: '' @ [quote])"
  shows "\<exists>res. snd (githubAuthTool_execute w context) = Inr res \<and>
               username res = ''alice'' \<and> scopes res = [''repo'', ''read:org'']"
proof -
  from assms(5) have tw: "takeWhile is_word_char post = []"
    by (cases post) auto
  have "match_account (pre @ account_marker @ ''alice'' @ post) = Some ''alice''"
    using assms(4) tw
    by (intro match_account_first) (simp_all add: account_marker_def is_word_char_def)
  with assms(3) have u: "match_account statusOutput = Some ''alice''"
    by (simp add: account_marker_def)
  have "match_scopes (pre' @ scopes_marker @ ''repo, read:org'' @ quote # post') =
      Some ''repo, read:org''"
    using assms(7)
    by (intro match_scopes_first) (simp_all add: scopes_marker_def quote_def)
  with assms(6) have s: "match_scopes statusOutput = Some ''repo, read:org''"
    by (simp add: scopes_marker_def)
  have sp: "split_comma_space [] ''repo, read:org'' = [''repo'', ''read:org'']"
    by simp
  show ?thesis
    by (simp add: githubAuthTool_execute_cli [OF assms(1)] assms(2) u s sp)
qed

text \<open>C8 amended, at a status text with the single account alice.\<close>

theorem status_text_first_match_extracted_witness:
  "\<exists>res. snd (githubAuthTool_execute
       (example_world (Stdout ''gho_abc'') (Stdout alice_status) None (Rejected NonError))
       \<lparr>requireToken = Some True\<rparr>) = Inr res \<and>
     username res = ''alice'' \<and> scopes res = [''repo'', ''read:org'']"
proof -
  let ?w = "example_world (Stdout ''gho_abc'') (Stdout alice_status) None (Rejected NonError)"
  have a: "execSync ?w ''gh auth token'' = Stdout ''gho_abc''"
    and b: "execSync ?w ''gh auth status'' = Stdout alice_status"
    by (simp_all add: example_world_def)
  have c: "alice_status = alice_status_head @ ''account alice'' @
      (alice_status_middle @ ''Token scopes: '' @ [quote] @ ''repo, read:org'' @ [quote] @ newline)"
    by (simp add: alice_status_def)
  have d: "\<not> str_includes (alice_status_head @ ''account'') ''account ''"
    by (simp add: alice_status_head_def newline_def starts_with_def)
  have e: "alice_status_middle @ ''Token scopes: '' @ [quote] @ ''repo, read:org'' @ [quote] @ newline = [] \<or>
      \<not> is_word_char (hd (alice_status_middle @ ''Token scopes: '' @ [quote] @ ''repo, read:org'' @ [quote] @ newline))"
    by (simp add: alice_status_middle_def is_word_char_def)
  have f: "alice_status = (alice_status_head @ ''account alice'' @ alice_status_middle) @
      ''Token scopes: '' @ [quote] @ ''repo, read:org'' @ [quote] @ newline"
    by (simp add: alice_status_def)
  have g: "\<not> str_includes ((alice_status_head @ ''account alice'' @ alice_status_middle) @
      ''Token scopes: '') (''Token scopes: '' @ [quote])"
    by (simp add: alice_status_head_def alice_status_middle_def newline_def starts_with_def
        quote_def)
  from status_text_first_match_extracted [OF a b c d e f g] show ?thesis .
qed

text \<open>
  C9. When the token command prints two spaces, \<open>abc123\<close> and a line feed, the resolved
  token is \<open>abc123\<close> and the source is \<open>github-cli\<close>, whatever the status command does.
\<close>
theorem cli_token_is_trimmed:
  assumes "execSync w ''gh auth token'' = Stdout (''  abc123'' @ [CHR 0x0A])"
  shows "(\<exists>res. snd (githubAuthTool_execute w context) = Inr res \<and>
                token res = ''abc123'' \<and> source res = GithubCli) \<and>
         snd (getGitHubToken w) = Inr ''abc123''"
  using assms
  by (simp add: githubAuthTool_execute_cli getGitHubToken_cli trim_def is_space_def)

text \<open>C9, in a runtime whose status command fails and whose environment has a token.\<close>
theorem cli_token_is_trimmed_witness:
  "(\<exists>res. snd (githubAuthTool_execute
        (example_world (Stdout (''  abc123'' @ [CHR 0x0A])) Threw (Some ''envtok'') (Rejected NonError))
        \<lparr>requireToken = Some True\<rparr>) = Inr res \<and>
      token res = ''abc123'' \<and> source res = GithubCli) \<and>
   snd (getGitHubToken
        (example_world (Stdout (''  abc123'' @ [CHR 0x0A])) Threw (Some ''envtok'') (Rejected NonError)))
     = Inr ''abc123''"
proof -
  let ?w = "example_world (Stdout (''  abc123'' @ [CHR 0x0A])) Threw (Some ''envtok'') (Rejected NonError)"
  have "execSync ?w ''gh auth token'' = Stdout (''  abc123'' @ [CHR 0x0A])"
    by (simp add: example_world_def)
  from cli_token_is_trimmed [OF this] show ?thesis .
qed

text \<open>
  C10. A token taken from \<open>GITHUB_TOKEN\<close> is returned as it is: nothing is trimmed, so white
  space around the value stays in the resolved token.
\<close>
theorem environment_token_verbatim:
  assumes "execSync w ''gh auth token'' = Threw"
      and "env w ''GITHUB_TOKEN'' = Some v"
      and "v \<noteq> []"
  shows "(\<exists>res. snd (githubAuthTool_execute w context) = Inr res \<and> token res = v) \<and>
         snd (getGitHubToken w) = Inr v"
  using assms by (simp add: githubAuthTool_execute_env getGitHubToken_env)

text \<open>C10, at a value with a leading space and a trailing line feed, which trimming would change.\<close>
theorem environment_token_verbatim_witness:
  "(\<exists>res. snd (githubAuthTool_execute
        (example_world Threw Threw (Some ('' ghp_env'' @ newline)) (Rejected NonError))
        \<lparr>requireToken = Some True\<rparr>) = Inr res \<and>
      token res = '' ghp_env'' @ newline) \<and>
   snd (getGitHubToken
        (example_world Threw Threw (Some ('' ghp_env'' @ newline)) (Rejected NonError)))
     = Inr ('' ghp_env'' @ newline) \<and>
   trim ('' ghp_env'' @ newline) \<noteq> '' ghp_env'' @ newline"
proof -
  let ?w = "example_world Threw Threw (Some ('' ghp_env'' @ newline)) (Rejected NonError)"
  have a: "execSync ?w ''gh auth token'' = Threw"
    and b: "env ?w ''GITHUB_TOKEN'' = Some ('' ghp_env'' @ newline)"
    by (simp_all add: example_world_def)
  have c: "'' ghp_env'' @ newline \<noteq> []" by simp
  have "trim ('' ghp_env'' @ newline) \<noteq> '' ghp_env'' @ newline"
    by (simp add: trim_def is_space_def newline_def)
  with environment_token_verbatim [OF a b c, of "\<lparr>requireToken = Some True\<rparr>"]
  show ?thesis by simp
qed

end
